theory Spec2Isabelle
  imports Complex_Main
begin

section \<open>Kronig-Penney energy bands (EnergyBand.py)\<close>

text \<open>
  Python floats are idealised as real numbers, Python ints as \<open>int\<close>.  The two
  library collaborators the module calls are not part of it: the nonlinear root-finder
  \<open>scipy.optimize.fsolve\<close> is a parameter of every definition below, and
  \<open>numpy.linspace\<close> / \<open>numpy.vectorize\<close> are modelled by their documented
  behaviour.  Every call of the root-finder is appended to a call log that is threaded
  through the computation, so that statements about how often and with which arguments
  the root-finder is invoked can be made.
\<close>

subsection \<open>Errors and the root-finder interface\<close>

datatype py_error = ZeroDivisionError | ValueError

text \<open>One invocation \<open>fsolve(func, x0, args=(k, a, U0b))\<close>, as recorded in the log.\<close>

record fsolve_call =
  x0 :: real
  args :: "real \<times> real \<times> real"

type_synonym call_log = "fsolve_call list"

text \<open>
  The black box: from a residual function of one unknown (undefined where it returns
  \<open>None\<close>) and a starting estimate to a root estimate.
\<close>

type_synonym root_finder = "(real \<Rightarrow> real option) \<Rightarrow> real \<Rightarrow> real"

text \<open>
  \<open>fsolve(func, x0, args)\<close>: the extra arguments reach the root-finder only as the
  trailing arguments of every evaluation \<open>func(x, *args)\<close>.
\<close>

definition fsolve ::
  "root_finder \<Rightarrow> (real \<Rightarrow> real \<Rightarrow> real \<Rightarrow> real \<Rightarrow> real option) \<Rightarrow> real \<Rightarrow>
     real \<times> real \<times> real \<Rightarrow> call_log \<Rightarrow> real \<times> call_log" where
  "fsolve solve func guess extra calls =
     (case extra of (k, a, U0b) \<Rightarrow>
        (solve (\<lambda>K. func K k a U0b) guess, calls @ [\<lparr>x0 = guess, args = extra\<rparr>]))"

text \<open>
  A degenerate root-finder that performs no iteration and hands back its starting
  estimate; it instantiates the parameter in closed examples.
\<close>

definition seed_solver :: root_finder where
  "seed_solver f guess = guess"

subsection \<open>Dispersion residual\<close>

text \<open>
  \<open>_Kronig_Penney(K, k, a, U0b)\<close>:
  \<^verbatim>\<open>return U0b / (2*K) * sin(K * a) + cos(K * a) - cos(k * a)\<close>.
  The division has no value when \<open>2*K\<close> is zero; that is the result \<open>None\<close>.
\<close>

definition Kronig_Penney :: "real \<Rightarrow> real \<Rightarrow> real \<Rightarrow> real \<Rightarrow> real option" where
  "Kronig_Penney K k a U0b =
     (if 2 * K = 0 then None
      else Some (U0b / (2 * K) * sin (K * a) + cos (K * a) - cos (k * a)))"

subsection \<open>Energy solver\<close>

text \<open>
  The body of \<open>E(k, n, a, U0b)\<close>:
  \<^verbatim>\<open>K = fsolve(_Kronig_Penney, (n + 1/2)*pi, args=(k, a, U0b)); return K**2\<close>.
  The keyword options \<open>**kwargs\<close> are accepted and not used.
\<close>

definition E :: "root_finder \<Rightarrow> real \<Rightarrow> int \<Rightarrow> real \<Rightarrow> real \<Rightarrow> call_log \<Rightarrow> real \<times> call_log" where
  "E solve k n a U0b calls =
     (case fsolve solve Kronig_Penney ((of_int n + 1 / 2) * pi) (k, a, U0b) calls of
        (K, calls') \<Rightarrow> (K ^ 2, calls'))"

subsection \<open>Library collaborators of the sweep\<close>

text \<open>
  Modelled from the spec: \<open>numpy.linspace(start, stop, num)\<close> is not part of the module;
  the spec asks for \<open>num\<close> evenly spaced samples over \<open>[start, stop]\<close>, both ends
  included.  Sample \<open>i\<close> is \<open>start + i * step\<close> with \<open>step = (stop - start) / (num - 1)\<close>.
\<close>

definition linspace :: "real \<Rightarrow> real \<Rightarrow> nat \<Rightarrow> real list" where
  "linspace start stop num =
     map (\<lambda>i. start + real i * ((stop - start) / real (num - 1))) [0..<num]"

text \<open>
  The decorator \<open>@np.vectorize\<close> on \<open>E\<close> (line 14) declares no output type and keeps
  no cache.  Called on a sequence, the library then
  \<^item> rejects an input of size 0 with \<open>ValueError\<close>,
  \<^item> evaluates the function once on the first element, only to infer the output type,
  \<^item> and evaluates it on every element in order, the first one included, collecting
    the results in a sequence of the same shape.
  The call log is handed from one evaluation to the next.
\<close>

fun elementwise :: "('a \<Rightarrow> call_log \<Rightarrow> 'b \<times> call_log) \<Rightarrow> 'a list \<Rightarrow> call_log \<Rightarrow> 'b list \<times> call_log" where
  "elementwise f [] calls = ([], calls)"
| "elementwise f (x # xs) calls =
     (case f x calls of (y, calls1) \<Rightarrow>
        (case elementwise f xs calls1 of (ys, calls2) \<Rightarrow> (y # ys, calls2)))"

definition vectorize ::
  "('a \<Rightarrow> call_log \<Rightarrow> 'b \<times> call_log) \<Rightarrow> 'a list \<Rightarrow> call_log \<Rightarrow> py_error + ('b list \<times> call_log)" where
  "vectorize f xs calls =
     (case xs of
        [] \<Rightarrow> Inl ValueError
      | x # _ \<Rightarrow> (case f x calls of (probe, calls0) \<Rightarrow> Inr (elementwise f xs calls0)))"

text \<open>
  The decorated \<open>E\<close> applied to a sequence of wavenumbers and scalar \<open>n\<close>, \<open>a\<close>,
  \<open>U0b\<close>.
\<close>

definition E_vectorized ::
  "root_finder \<Rightarrow> real list \<Rightarrow> int \<Rightarrow> real \<Rightarrow> real \<Rightarrow> call_log \<Rightarrow>
     py_error + (real list \<times> call_log)" where
  "E_vectorized solve ks n a U0b calls = vectorize (\<lambda>kj. E solve kj n a U0b) ks calls"

text \<open>
  The decorated \<open>E\<close> applied to a scalar wavenumber: an input of size 1, so the body
  runs once for the output type and once for the value that is returned.
\<close>

definition E_scalar ::
  "root_finder \<Rightarrow> real \<Rightarrow> int \<Rightarrow> real \<Rightarrow> real \<Rightarrow> call_log \<Rightarrow> real \<times> call_log" where
  "E_scalar solve k n a U0b calls =
     (case E solve k n a U0b calls of (probe, calls0) \<Rightarrow> E solve k n a U0b calls0)"

text \<open>
  A scalar call that may leave out the optional parameters of the signature
  \<open>E(k, n=1, a=1, U0b=4)\<close>: an omitted argument takes the default written there.
\<close>

definition E_call ::
  "root_finder \<Rightarrow> real \<Rightarrow> int option \<Rightarrow> real option \<Rightarrow> real option \<Rightarrow> call_log \<Rightarrow>
     real \<times> call_log" where
  "E_call solve k n a U0b calls =
     E_scalar solve k (case n of None \<Rightarrow> 1 | Some n' \<Rightarrow> n')
                      (case a of None \<Rightarrow> 1 | Some a' \<Rightarrow> a')
                      (case U0b of None \<Rightarrow> 4 | Some u \<Rightarrow> u) calls"

text \<open>
  A list comprehension \<open>[f(i) for i in xs]\<close> whose element expression may raise: the
  elements are computed in order and the first error ends the comprehension.
\<close>

fun comprehension ::
  "('a \<Rightarrow> call_log \<Rightarrow> py_error + ('b \<times> call_log)) \<Rightarrow> 'a list \<Rightarrow> call_log \<Rightarrow>
     py_error + ('b list \<times> call_log)" where
  "comprehension f [] calls = Inr ([], calls)"
| "comprehension f (x # xs) calls =
     (case f x calls of
        Inl e \<Rightarrow> Inl e
      | Inr (y, calls1) \<Rightarrow>
          (case comprehension f xs calls1 of
             Inl e \<Rightarrow> Inl e
           | Inr (ys, calls2) \<Rightarrow> Inr (y # ys, calls2)))"

text \<open>\<open>range(n)\<close> for an integer \<open>n\<close>: empty when \<open>n\<close> is not positive.\<close>

definition range_py :: "int \<Rightarrow> int list" where
  "range_py n = map int [0..<nat n]"

text \<open>\<open>enumerate(xs)\<close>: every element paired with its position, counted from 0.\<close>

definition enumerate_py :: "'a list \<Rightarrow> (nat \<times> 'a) list" where
  "enumerate_py xs = zip [0..<length xs] xs"

subsection \<open>Decimal rendering of integers\<close>

text \<open>What \<open>"{}".format(i)\<close> writes for an integer \<open>i\<close>.\<close>

definition digit_char :: "nat \<Rightarrow> char" where
  "digit_char d = char_of (48 + d)"

function str_nat :: "nat \<Rightarrow> string" where
  "str_nat n = (if n < 10 then [digit_char n] else str_nat (n div 10) @ [digit_char (n mod 10)])"
  by pat_completeness auto
termination
  by (relation "measure (\<lambda>n. n)") auto

declare str_nat.simps [simp del]

definition str_int :: "int \<Rightarrow> string" where
  "str_int i = (if i < 0 then CHR ''-'' # str_nat (nat (- i)) else str_nat (nat i))"

subsection \<open>Band assembler\<close>

text \<open>
  \<open>getBands(n, a, U0b)\<close>:
  \<^verbatim>\<open>k = np.linspace(-pi/a, pi/a, 100)\<close>,
  \<^verbatim>\<open>bands = [E(k, i, a, U0b=4, **kwargs) for i in range(n)]\<close>.
  The division \<open>pi/a\<close> raises for \<open>a = 0\<close>.  The solver is called with the literal
  \<open>U0b=4\<close>; the parameter \<open>U0b\<close> of \<open>getBands\<close> does not occur in its body.
\<close>

definition getBands ::
  "root_finder \<Rightarrow> int \<Rightarrow> real \<Rightarrow> real \<Rightarrow> call_log \<Rightarrow> py_error + (real list list \<times> call_log)" where
  "getBands solve n a U0b calls =
     (if a = 0 then Inl ZeroDivisionError
      else
        (let k = linspace (- pi / a) (pi / a) 100
         in comprehension (\<lambda>i. E_vectorized solve k i a 4) (range_py n) calls))"

subsection \<open>Presenter\<close>

text \<open>
  The rendering sink: the axes object collects one entry per \<open>ax.plot(x, y, label=...)\<close>
  and the settings made on it.
\<close>

record series =
  xdata :: "real list"
  ydata :: "real list"
  label :: string

record axes =
  lines :: "series list"
  xlabel :: string
  ylabel :: string
  title :: string
  minorticks :: bool
  grid :: bool
  legend :: bool

record figure =
  figsize :: "nat \<times> nat"
  dpi :: nat

text \<open>\<open>plt.subplots(figsize=..., dpi=...)\<close>: a figure and an empty axes object.\<close>

definition subplots :: "nat \<times> nat \<Rightarrow> nat \<Rightarrow> figure \<times> axes" where
  "subplots fs d =
     (\<lparr>figsize = fs, dpi = d\<rparr>,
      \<lparr>lines = [], xlabel = [], ylabel = [], title = [], minorticks = False,
       grid = False, legend = False\<rparr>)"

text \<open>\<open>ax.plot(x, y, label=l)\<close> appends one series.\<close>

definition plot :: "axes \<Rightarrow> real list \<Rightarrow> real list \<Rightarrow> string \<Rightarrow> axes" where
  "plot ax x y l = ax\<lparr>lines := lines ax @ [\<lparr>xdata = x, ydata = y, label = l\<rparr>]\<rparr>"

text \<open>
  The loop \<^verbatim>\<open>for i, band in enumerate(bands): ax.plot(k, band, label="${}$-th band".format(i))\<close>.
\<close>

fun plot_all :: "axes \<Rightarrow> real list \<Rightarrow> (nat \<times> real list) list \<Rightarrow> axes" where
  "plot_all ax k [] = ax"
| "plot_all ax k ((i, band) # rest) =
     plot_all (plot ax k band (''$'' @ str_nat i @ ''$-th band'')) k rest"

text \<open>
  \<open>plotBands(n, a, U0b, title)\<close>.  The default title is computed first, then the
  wavenumbers (the division raises for \<open>a = 0\<close>), then the bands, then the figure.
\<close>

definition plotBands ::
  "root_finder \<Rightarrow> int \<Rightarrow> real \<Rightarrow> real \<Rightarrow> string option \<Rightarrow> call_log \<Rightarrow>
     py_error + ((figure \<times> axes) \<times> call_log)" where
  "plotBands solve n a U0b ttl calls =
     (let ttl' = (case ttl of None \<Rightarrow> ''Plotting of '' @ str_int n @ '' bands'' | Some t \<Rightarrow> t)
      in if a = 0 then Inl ZeroDivisionError
         else
           (let k = linspace (- pi / a) (pi / a) 100
            in case getBands solve n a U0b calls of
                 Inl e \<Rightarrow> Inl e
               | Inr (bands, calls') \<Rightarrow>
                   (case subplots (5, 15) 200 of
                      (fig, ax) \<Rightarrow>
                        (let ax1 = plot_all ax k (enumerate_py bands);
                             ax2 = ax1\<lparr>xlabel := ''$k$''\<rparr>;
                             ax3 = ax2\<lparr>ylabel := ''$2m E/'' @ [char_of (92::nat)] @ ''hbar^2$''\<rparr>;
                             ax4 = ax3\<lparr>title := ttl'\<rparr>;
                             ax5 = ax4\<lparr>minorticks := True\<rparr>;
                             ax6 = ax5\<lparr>grid := True\<rparr>;
                             ax7 = ax6\<lparr>legend := True\<rparr>
                         in Inr ((fig, ax7), calls')))))"

section \<open>Auxiliary facts\<close>

lemma char_of_48: "char_of (48::nat) = CHR ''0''"
  by code_simp

lemma str_nat_0: "str_nat 0 = ''0''"
  by (simp add: str_nat.simps digit_char_def char_of_48)

lemma E_unfold:
  "E solve k n a u calls =
     ((solve (\<lambda>K. Kronig_Penney K k a u) ((of_int n + 1 / 2) * pi))\<^sup>2,
      calls @ [\<lparr>x0 = (of_int n + 1 / 2) * pi, args = (k, a, u)\<rparr>])"
  by (simp add: E_def fsolve_def)

lemma seed_nonzero: "(of_int n + 1 / 2) * pi \<noteq> (0::real)"
proof -
  have "(of_int n + 1 / 2 :: real) = of_int (2 * n + 1) / 2" by simp
  moreover have "2 * n + 1 \<noteq> 0" by presburger
  ultimately have "(of_int n + 1 / 2 :: real) \<noteq> 0"
    by (metis divide_eq_0_iff of_int_eq_0_iff zero_neq_numeral)
  then show ?thesis by simp
qed

lemma E_scalar_unfold:
  "E_scalar solve k n a u calls =
     ((solve (\<lambda>K. Kronig_Penney K k a u) ((of_int n + 1 / 2) * pi))\<^sup>2,
      calls @ [\<lparr>x0 = (of_int n + 1 / 2) * pi, args = (k, a, u)\<rparr>,
               \<lparr>x0 = (of_int n + 1 / 2) * pi, args = (k, a, u)\<rparr>])"
  by (simp add: E_scalar_def E_unfold)

lemma elementwise_pure:
  assumes "\<And>x cs. f x cs = (g x, cs @ h x)"
  shows "elementwise f xs calls = (map g xs, calls @ concat (map h xs))"
  using assms by (induction xs arbitrary: calls) simp_all

lemma vectorize_pure:
  assumes "\<And>x cs. f x cs = (g x, cs @ h x)" and "xs \<noteq> []"
  shows "vectorize f xs calls = Inr (map g xs, calls @ h (hd xs) @ concat (map h xs))"
proof -
  from assms(2) obtain y ys where xs: "xs = y # ys" by (cases xs) auto
  have "elementwise f xs (calls @ h y) = (map g xs, (calls @ h y) @ concat (map h xs))"
    using assms(1) by (rule elementwise_pure)
  then show ?thesis
    by (simp add: vectorize_def xs assms(1))
qed

lemma comprehension_pure:
  assumes "\<And>x cs. f x cs = Inr (g x, cs @ h x)"
  shows "comprehension f xs calls = Inr (map g xs, calls @ concat (map h xs))"
  using assms by (induction xs arbitrary: calls) simp_all

lemma E_vectorized_unfold:
  assumes "ks \<noteq> []"
  shows "E_vectorized solve ks n a u calls =
     Inr (map (\<lambda>kj. fst (E solve kj n a u [])) ks,
          calls @ snd (E solve (hd ks) n a u []) @
            concat (map (\<lambda>kj. snd (E solve kj n a u [])) ks))"
  unfolding E_vectorized_def
  by (rule vectorize_pure [where h = "\<lambda>kj. snd (E solve kj n a u [])"])
     (simp_all add: E_unfold assms)

lemma E_vectorized_empty: "E_vectorized solve [] n a u calls = Inl ValueError"
  by (simp add: E_vectorized_def vectorize_def)

lemma linspace_100_nonempty: "linspace lo hi 100 \<noteq> []"
proof
  assume "linspace lo hi 100 = []"
  then have "length (linspace lo hi 100) = 0" by simp
  then show False by (simp add: linspace_def)
qed

lemma getBands_unfold:
  assumes "a \<noteq> 0"
  shows "getBands solve n a u calls =
     Inr (map (\<lambda>i. map (\<lambda>kj. fst (E solve kj i a 4 [])) (linspace (- pi / a) (pi / a) 100)) (range_py n),
          calls @ concat (map (\<lambda>i.
             snd (E solve (hd (linspace (- pi / a) (pi / a) 100)) i a 4 []) @
             concat (map (\<lambda>kj. snd (E solve kj i a 4 []))
               (linspace (- pi / a) (pi / a) 100))) (range_py n)))"
proof -
  let ?ks = "linspace (- pi / a) (pi / a) 100"
  have "comprehension (\<lambda>i. E_vectorized solve ?ks i a 4) is calls =
     Inr (map (\<lambda>i. map (\<lambda>kj. fst (E solve kj i a 4 [])) ?ks) is,
      calls @ concat (map (\<lambda>i. snd (E solve (hd ?ks) i a 4 []) @
         concat (map (\<lambda>kj. snd (E solve kj i a 4 [])) ?ks)) is))" for "is"
    by (rule comprehension_pure) (simp add: E_vectorized_unfold [OF linspace_100_nonempty])
  with assms show ?thesis by (simp add: getBands_def Let_def)
qed

lemma length_linspace: "length (linspace lo hi num) = num"
  by (simp add: linspace_def)

lemma linspace_nth: "j < num \<Longrightarrow> linspace lo hi num ! j = lo + real j * ((hi - lo) / real (num - 1))"
  by (simp add: linspace_def)

lemma linspace_first: "linspace lo hi 100 ! 0 = lo"
  by (simp add: linspace_nth)

lemma linspace_last: "linspace lo hi 100 ! 99 = hi"
  by (simp add: linspace_nth field_simps)

lemma linspace_step:
  assumes "j < 99"
  shows "linspace lo hi 100 ! Suc j - linspace lo hi 100 ! j = (hi - lo) / 99"
  using assms by (simp add: linspace_nth field_simps)

lemma linspace_within:
  assumes "lo \<le> hi" and "j < 100"
  shows "lo \<le> linspace lo hi 100 ! j \<and> linspace lo hi 100 ! j \<le> hi"
proof -
  have j: "real j \<le> 99" using assms(2) by simp
  have d: "0 \<le> hi - lo" using assms(1) by simp
  have "real j * (hi - lo) \<le> 99 * (hi - lo)"
    using j d by (rule mult_right_mono)
  moreover have "0 \<le> real j * (hi - lo)" using d by simp
  ultimately show ?thesis using assms(2) by (simp add: linspace_nth field_simps)
qed

lemma plot_all_lines:
  "lines (plot_all ax k ibs) =
     lines ax @ map (\<lambda>(i, band). \<lparr>xdata = k, ydata = band, label = ''$'' @ str_nat i @ ''$-th band''\<rparr>) ibs"
  by (induction ax k ibs rule: plot_all.induct) (simp_all add: plot_def)

lemma map_enumerate_py:
  "map (\<lambda>(i, b). f i b) (enumerate_py bs) = map (\<lambda>i. f i (bs ! i)) [0..<length bs]"
  unfolding enumerate_py_def by (rule nth_equalityI) simp_all

lemma plotBands_lines:
  assumes "a \<noteq> 0" and "getBands solve n a u calls = Inr (bands, calls1)"
  shows "\<exists>fig ax. plotBands solve n a u ttl calls = Inr ((fig, ax), calls1) \<and>
     lines ax = map (\<lambda>i. \<lparr>xdata = linspace (- pi / a) (pi / a) 100, ydata = bands ! i,
                          label = ''$'' @ str_nat i @ ''$-th band''\<rparr>) [0..<length bands]"
  using assms
  by (simp add: plotBands_def Let_def subplots_def plot_all_lines map_enumerate_py)

section \<open>Properties of the module\<close>

subsection \<open>Band assembler and the potential parameter\<close>

text \<open>
  C1 (defect of the code).  The claim asks that \<open>getBands(n_bands, a, U0b)\<close> call the
  energy solver with the caller's \<open>U0b\<close>.  The body passes the literal \<open>U0b=4\<close>
  instead, so the result of \<open>getBands\<close>, bands and root-finder calls alike, is the
  same for any two values of its potential parameter: the bands cannot grow with it.
\<close>

theorem getBands_ignores_U0b:
  "getBands solve n a U0b calls = getBands solve n a U0b' calls"
  by (simp add: getBands_def)

subsection \<open>Default band index\<close>

text \<open>
  C2 (as amended).  A call of the energy solver that gives no band index is the call
  with band index 1, the default written in the signature \<open>E(k, n=1, a=1, U0b=4)\<close>;
  with bands counted from 0 that is the second band, not the lowest one.
\<close>

theorem E_call_default_band:
  "E_call solve k None a U0b calls = E_call solve k (Some 1) a U0b calls"
  by (simp add: E_call_def)

text \<open>
  C2 as stated fails: at \<open>k = 0\<close> with the other defaults, the call without a band
  index seeds the root-finder at \<open>3\<pi>/2\<close> (on both evaluations of the body), the call
  with \<open>n = 0\<close> at \<open>\<pi>/2\<close>, and with the root-finder that returns its seed the two
  energies differ.
\<close>

theorem E_call_default_band_counterexample:
  "fst (E_call seed_solver 0 None None None []) \<noteq> fst (E_call seed_solver 0 (Some 0) None None [])
   \<and> map x0 (snd (E_call seed_solver 0 None None None [])) = [(1 + 1 / 2) * pi, (1 + 1 / 2) * pi]
   \<and> map x0 (snd (E_call seed_solver 0 (Some 0) None None [])) = [(0 + 1 / 2) * pi, (0 + 1 / 2) * pi]"
  by (simp add: E_call_def E_scalar_unfold seed_solver_def power2_eq_iff)

subsection \<open>Energy solver\<close>



subsection \<open>Dispersion residual\<close>

text \<open>
  C4.  For \<open>K \<noteq> 0\<close> the dispersion residual is
  \<open>(U0b / (2K)) sin(K a) + cos(K a) - cos(k a)\<close>, a function of its four arguments
  alone, and it vanishes exactly when the Kronig-Penney relation
  \<open>(U0b / (2K)) sin(K a) + cos(K a) = cos(k a)\<close> holds.
\<close>

theorem Kronig_Penney_formula:
  assumes "K \<noteq> 0"
  shows "Kronig_Penney K k a U0b = Some ((U0b / (2 * K)) * sin (K * a) + cos (K * a) - cos (k * a))
       \<and> (Kronig_Penney K k a U0b = Some 0 \<longleftrightarrow>
            (U0b / (2 * K)) * sin (K * a) + cos (K * a) = cos (k * a))"
  using assms by (simp add: Kronig_Penney_def)

theorem Kronig_Penney_formula_witness:
  "(1::real) \<noteq> 0 \<and> Kronig_Penney 1 0 1 4 = Some ((4 / (2 * 1)) * sin (1 * 1) + cos (1 * 1) - cos (0 * 1))"
  using Kronig_Penney_formula [of 1 0 1 4] by simp

subsection \<open>Shape of the bands\<close>

text \<open>
  C5.  For a band count \<open>N \<ge> 0\<close> and a lattice spacing \<open>a > 0\<close>, \<open>getBands\<close> returns
  exactly \<open>N\<close> bands of exactly 100 samples each.  The wavenumbers are 100 samples
  that start at \<open>-\<pi>/a\<close>, end at \<open>\<pi>/a\<close>, advance by the constant step
  \<open>(2\<pi>/a)/99\<close> and stay inside \<open>[-\<pi>/a, \<pi>/a]\<close>; sample \<open>j\<close> of band \<open>i\<close> is the
  energy solver's value at wavenumber \<open>j\<close> with band index \<open>i\<close> (and the potential
  parameter 4 that the body passes).
\<close>

theorem getBands_shape:
  assumes "0 \<le> N" and "0 < a"
  shows "\<exists>bands calls'.
     getBands solve N a U0b calls = Inr (bands, calls') \<and>
     int (length bands) = N \<and>
     (\<forall>i<length bands. length (bands ! i) = 100 \<and>
        (\<forall>j<100. bands ! i ! j =
           fst (E solve (linspace (- pi / a) (pi / a) 100 ! j) (int i) a 4 cs))) \<and>
     length (linspace (- pi / a) (pi / a) 100) = 100 \<and>
     linspace (- pi / a) (pi / a) 100 ! 0 = - pi / a \<and>
     linspace (- pi / a) (pi / a) 100 ! 99 = pi / a \<and>
     (\<forall>j<99. linspace (- pi / a) (pi / a) 100 ! Suc j - linspace (- pi / a) (pi / a) 100 ! j
               = (2 * pi / a) / 99) \<and>
     (\<forall>j<100. - pi / a \<le> linspace (- pi / a) (pi / a) 100 ! j \<and>
               linspace (- pi / a) (pi / a) 100 ! j \<le> pi / a)"
proof -
  let ?ks = "linspace (- pi / a) (pi / a) 100"
  let ?bands = "map (\<lambda>i. map (\<lambda>kj. fst (E solve kj i a 4 [])) ?ks) (range_py N)"
  from assms(2) have a: "a \<noteq> 0" by simp
  obtain calls' where g: "getBands solve N a U0b calls = Inr (?bands, calls')"
    using getBands_unfold [OF a] by blast
  have len: "int (length ?bands) = N"
    using assms(1) by (simp add: range_py_def)
  have rows: "\<forall>i<length ?bands. length (?bands ! i) = 100 \<and>
        (\<forall>j<100. ?bands ! i ! j = fst (E solve (?ks ! j) (int i) a 4 cs))"
    by (simp add: range_py_def length_linspace E_unfold)
  have lo_hi: "- pi / a \<le> pi / a"
    using assms(2) by (simp add: field_simps)
  have step: "\<forall>j<99. ?ks ! Suc j - ?ks ! j = (2 * pi / a) / 99"
    by (simp add: linspace_step field_simps)
  have within: "\<forall>j<100. - pi / a \<le> ?ks ! j \<and> ?ks ! j \<le> pi / a"
    using linspace_within [OF lo_hi] by blast
  show ?thesis
    using g len rows step within
    by (intro exI [of _ ?bands] exI [of _ calls'])
       (simp only: length_linspace linspace_first linspace_last simp_thms)
qed

theorem getBands_shape_witness:
  "(0::int) \<le> 2 \<and> (0::real) < 1 \<and>
   (\<exists>bands calls'. getBands seed_solver 2 1 0 [] = Inr (bands, calls') \<and>
      length bands = 2 \<and> length (bands ! 1) = 100 \<and>
      bands ! 1 ! 99 = fst (E seed_solver pi 1 1 4 []))"
proof -
  have h1: "(0::int) \<le> 2" and h2: "(0::real) < 1" by simp_all
  from getBands_shape [OF h1 h2, of seed_solver 0 "[]" "[]"]
  obtain bands calls' where
    g: "getBands seed_solver 2 1 0 [] = Inr (bands, calls')" and
    l: "int (length bands) = 2" and
    r: "\<forall>i<length bands. length (bands ! i) = 100 \<and>
        (\<forall>j<100. bands ! i ! j =
           fst (E seed_solver (linspace (- pi / 1) (pi / 1) 100 ! j) (int i) 1 4 []))" and
    e: "linspace (- pi / 1) (pi / 1) 100 ! 99 = pi / 1"
    by blast
  from l have l2: "length bands = 2" by simp
  with r have "length (bands ! 1) = 100" and "bands ! 1 ! 99 = fst (E seed_solver pi 1 1 4 [])"
    using e by simp_all
  with g l2 show ?thesis by simp
qed

subsection \<open>Elementwise application\<close>

text \<open>
  C6 (as amended).  Applied to a non-empty sequence of wavenumbers, the energy solver
  returns a sequence of the same length whose \<open>j\<close>-th element is the scalar solver's
  value at the \<open>j\<close>-th wavenumber, whatever calls were made before (the elements are
  solved independently).
\<close>

theorem E_vectorized_nonempty_elementwise:
  assumes "ks \<noteq> []"
  shows "\<exists>ys calls'.
     E_vectorized solve ks n a U0b calls = Inr (ys, calls') \<and>
     length ys = length ks \<and>
     (\<forall>j<length ks. ys ! j = fst (E solve (ks ! j) n a U0b cs))"
  using assms by (simp add: E_vectorized_unfold E_unfold)

theorem E_vectorized_nonempty_elementwise_witness:
  "[0, 1] \<noteq> ([] :: real list) \<and>
   (\<exists>ys calls'. E_vectorized seed_solver [0, 1] 0 1 4 [] = Inr (ys, calls') \<and>
      length ys = 2 \<and> ys ! 1 = fst (E seed_solver 1 0 1 4 []))"
proof -
  have h: "[0, 1] \<noteq> ([] :: real list)" by simp
  from E_vectorized_nonempty_elementwise [OF h, of seed_solver 0 1 4 "[]" "[]"]
  show ?thesis by auto
qed

text \<open>
  C6 as stated fails for a sequence of length 0: the decorated function has no output
  type declared, so the empty sequence is rejected with \<open>ValueError\<close> and no result
  sequence is returned.
\<close>

theorem E_vectorized_empty_counterexample:
  "E_vectorized seed_solver [] 0 1 4 [] = Inl ValueError
   \<and> E_vectorized seed_solver [] 0 1 4 [] \<noteq> Inr ([], [])"
  by (simp add: E_vectorized_empty)

subsection \<open>Symmetry in the wavenumber\<close>

text \<open>
  C7.  The residual depends on \<open>k\<close> only through \<open>cos(k a)\<close>, so negating \<open>k\<close>
  leaves the residual function unchanged, and with it the energy the solver computes,
  for every root-finder, band index, lattice spacing and potential parameter.
\<close>

theorem E_even_in_k:
  "Kronig_Penney K (- k) a U0b = Kronig_Penney K k a U0b \<and>
   fst (E solve (- k) n a U0b calls) = fst (E solve k n a U0b calls')"
proof -
  have even: "Kronig_Penney K' (- k) a U0b = Kronig_Penney K' k a U0b" for K'
    by (simp add: Kronig_Penney_def)
  then show ?thesis by (simp add: E_unfold)
qed

subsection \<open>The seed is never zero\<close>

text \<open>
  C8.  The residual has no value at \<open>K = 0\<close>.  For every band index \<open>n\<close> (in
  particular every \<open>n \<ge> 0\<close>) the initial guess \<open>(n + 1/2)\<pi>\<close> is not zero, the
  residual has a value there, and it is the one seed the energy solver hands to the
  root-finder.
\<close>

theorem E_seed_nonzero:
  "Kronig_Penney 0 k a U0b = None \<and>
   (of_int n + 1 / 2) * pi \<noteq> (0::real) \<and>
   Kronig_Penney ((of_int n + 1 / 2) * pi) k a U0b \<noteq> None \<and>
   map x0 (snd (E solve k n a U0b [])) = [(of_int n + 1 / 2) * pi]"
  using seed_nonzero [of n] by (simp add: Kronig_Penney_def E_unfold)

subsection \<open>Series handed to the rendering sink\<close>

text \<open>
  C9 (as amended).  For a band count \<open>N \<ge> 0\<close> and \<open>a \<noteq> 0\<close>, \<open>plotBands\<close> hands exactly
  \<open>N\<close> series to the axes: series \<open>i\<close> pairs the wavenumber sequence with band \<open>i\<close> of
  \<open>getBands\<close> and carries the label made of a dollar sign, the decimal index \<open>i\<close>,
  a dollar sign and \<open>-th band\<close> (the index is set in math mode).
\<close>

theorem plotBands_series:
  assumes "0 \<le> N" and "a \<noteq> 0"
  shows "\<exists>bands fig ax calls'.
     getBands solve N a U0b calls = Inr (bands, calls') \<and>
     plotBands solve N a U0b ttl calls = Inr ((fig, ax), calls') \<and>
     int (length (lines ax)) = N \<and>
     lines ax = map (\<lambda>i. \<lparr>xdata = linspace (- pi / a) (pi / a) 100, ydata = bands ! i,
                          label = ''$'' @ str_nat i @ ''$-th band''\<rparr>) [0..<nat N]"
proof -
  obtain bands calls' where g: "getBands solve N a U0b calls = Inr (bands, calls')"
    and l: "length bands = nat N"
    using getBands_unfold [OF assms(2), of solve N U0b calls] by (simp add: range_py_def)
  from plotBands_lines [OF assms(2) g, of ttl] l assms(1) g
  show ?thesis by auto
qed

theorem plotBands_series_witness:
  "(0::int) \<le> 2 \<and> (1::real) \<noteq> 0 \<and>
   (\<exists>fig ax calls'. plotBands seed_solver 2 1 4 None [] = Inr ((fig, ax), calls') \<and>
      length (lines ax) = 2 \<and> map label (lines ax) = [''$0$-th band'', ''$1$-th band''])"
proof -
  have h1: "(0::int) \<le> 2" and h2: "(1::real) \<noteq> 0" by simp_all
  have s1: "str_nat (Suc 0) = ''1''" by code_simp
  have u: "[0..<2] = [0, Suc 0]" by (simp add: upt_rec)
  from plotBands_series [OF h1 h2, of seed_solver 4 "[]" None]
  show ?thesis by (auto simp: u str_nat_0 s1)
qed

text \<open>
  C9 as stated fails: with one band and all other parameters at their defaults, the
  only label handed to the axes is \<open>$0$-th band\<close>, which is not the string
  \<open>0-th band\<close>.
\<close>

theorem plotBands_label_counterexample:
  "map_sum id (\<lambda>r. map label (lines (snd (fst r)))) (plotBands seed_solver 1 1 4 None [])
     = Inr [''$0$-th band''] \<and>
   map_sum id (\<lambda>r. map label (lines (snd (fst r)))) (plotBands seed_solver 1 1 4 None [])
     \<noteq> Inr [''0-th band'']"
proof -
  have a: "(1::real) \<noteq> 0" by simp
  obtain bands calls1 where g: "getBands seed_solver 1 1 4 [] = Inr (bands, calls1)"
    and l: "length bands = 1"
    using getBands_unfold [OF a, of seed_solver 1 4 "[]"] by (simp add: range_py_def)
  from plotBands_lines [OF a g, of None] l
  show ?thesis by (auto simp: str_nat_0)
qed

subsection \<open>Zero bands\<close>

text \<open>
  C10.  With band count 0 and \<open>a \<noteq> 0\<close>, \<open>getBands\<close> returns the empty list of bands
  without failing, and the call log is returned as it was received: neither the
  energy solver nor the root-finder is invoked.
\<close>

theorem getBands_zero_bands:
  assumes "a \<noteq> 0"
  shows "getBands solve 0 a U0b calls = Inr ([], calls)"
  using assms by (simp add: getBands_def range_py_def)

theorem getBands_zero_bands_witness:
  "(1::real) \<noteq> 0 \<and> getBands seed_solver 0 1 4 [] = Inr ([], [])"
  using getBands_zero_bands [of 1 seed_solver 4 "[]"] by simp

end
